theory Spec2Isabelle
  imports Main "HOL-Library.Word"
begin

unbundle bit_operations_syntax

section \<open>The enrollment client of a node: openchain/crypto/node-eca\<close>

text \<open>
  The Go file \<^verbatim>\<open>node_eca.go\<close> holds seven methods of \<open>nodeImpl\<close>: \<open>retrieveECACertsChain\<close>,
  \<open>loadECACertsChain\<close>, the three RPC wrappers \<open>callECACreateCertificate\<close>,
  \<open>callECAReadCACertificate\<close>, \<open>callECAReadCertificate\<close>, and
  \<open>getEnrollmentCertificateFromECA\<close> with \<open>getECACertificate\<close>.
  Each is embedded as a function that takes the world it runs in (clock, random source,
  network trace, file system) and returns its Go results together with the world it leaves.
  Calls of \<open>node.log\<close> write diagnostics only and are left out.
\<close>

subsection \<open>Values\<close>

type_synonym byte = "8 word"
type_synonym bytes = "byte list"

text \<open>A Go \<open>error\<close> value, identified by its message.\<close>

datatype error = Error string

text \<open>
  The result of a Go function that returns values and an error and may also panic.
\<close>

datatype 'a result = Ok 'a | Err error | Panic

subsection \<open>Messages of the CA protocol (package obcca) and google/protobuf\<close>

text \<open>
  The message types are declared in the protocol package; their fields are the ones the
  literals of this file name (\<open>Ts\<close>, \<open>Id\<close>, \<open>Pw\<close>, \<open>Pub\<close>, \<open>Sig\<close>,
  \<open>Seconds\<close>, \<open>Nanos\<close>, \<open>Type\<close>, \<open>Key\<close>, \<open>Cert\<close>) or fill by position
  (\<open>Signature\<close>: type, r, s; \<open>ECertReadReq\<close>: identity, hash).
  A pointer to a message is an option: \<open>None\<close> is \<open>nil\<close>.
\<close>

datatype CryptoType = CryptoType_ECDSA | CryptoType_RSA | CryptoType_DSA

record Timestamp =
  Seconds :: "64 word"
  Nanos :: "32 word"

record Identity =
  Id :: string

record Password =
  Pw :: string

record obcca_PublicKey =
  Type :: CryptoType
  Key :: bytes

record Signature =
  Type :: CryptoType
  R :: bytes
  S :: bytes

record ECertCreateReq =
  Ts :: "Timestamp option"
  Id :: "Identity option"
  Pw :: "Password option"
  Pub :: "obcca_PublicKey option"
  Sig :: "Signature option"

record ECertReadReq =
  Id :: "Identity option"
  Hash :: bytes

record Cert =
  Cert :: bytes

record Creds =
  Cert :: "Cert option"
  Key :: bytes

subsection \<open>Keys, certificates and PEM blocks (crypto/ecdsa, crypto/x509, encoding/pem)\<close>

record ecdsa_PublicKey =
  Curve :: string
  X :: int
  Y :: int

record ecdsa_PrivateKey =
  PublicKey :: ecdsa_PublicKey
  D :: int

text \<open>A parsed certificate; \<open>Raw\<close> is its complete DER encoding.\<close>

record Certificate =
  Raw :: bytes

record pem_Block =
  BlockType :: string
  Headers :: "(string \<times> string) list"
  Bytes :: bytes

subsection \<open>The world\<close>

text \<open>What goes over a connection to the CA, in order.\<close>

datatype rpc_event =
    EvDial string
  | EvCreateCertificate ECertCreateReq
  | EvReadCACertificate
  | EvReadCertificate ECertReadReq
  | EvClose

datatype access = ForReading | ForWriting

record os_file =
  content :: bytes
  mode :: "32 word"

text \<open>
  \<open>clockReads\<close> and \<open>randReads\<close> count the reads of the wall clock and of
  \<open>crypto/rand.Reader\<close> made so far; \<open>wire\<close> is the trace of the RPC layer;
  \<open>files\<close>, \<open>umask\<close> are the file system as this process sees it, and
  \<open>openErr\<close>, \<open>writeErr\<close> its faults: the error that opening a path for
  reading or for writing returns, and the number of bytes a write to a path accepts before
  it fails with an error.
\<close>

record world =
  clockReads :: nat
  randReads :: nat
  wire :: "rpc_event list"
  files :: "string \<rightharpoonup> os_file"
  umask :: "32 word"
  openErr :: "string \<Rightarrow> access \<Rightarrow> error option"
  writeErr :: "string \<Rightarrow> (nat \<times> error) option"

subsection \<open>External collaborators\<close>

text \<open>
  The functions this file calls in other packages are parameters, one field each, named
  after the Go call (\<open>utils.Hash\<close> is \<open>utils_Hash\<close>). A call that returns a value
  and an error which the caller tests is a sum; where the caller discards the error with
  \<open>_\<close> and uses the value, the field returns both.
  \<^item> \<open>time_Now n\<close>: \<open>time.Now().Unix()\<close> at the \<open>n\<close>-th read of the clock.
  \<^item> \<open>utils_NewECDSAKey n\<close>, \<open>ecdsa_Sign n\<close>: the key, the signature \<open>(r, s)\<close>
    produced from the \<open>n\<close>-th read of the random source.
  \<^item> \<open>grpc_Dial\<close> and the three calls of the ECAP client answer as the remote side
    does after the trace so far.
\<close>

record lib =
  time_Now :: "nat \<Rightarrow> 64 word"
  utils_NewECDSAKey :: "nat \<Rightarrow> error + ecdsa_PrivateKey"
  x509_MarshalPKIXPublicKey :: "ecdsa_PublicKey \<Rightarrow> bytes \<times> error option"
  proto_Marshal :: "ECertCreateReq \<Rightarrow> bytes \<times> error option"
  utils_Hash :: "bytes \<Rightarrow> bytes"
  ecdsa_Sign :: "nat \<Rightarrow> ecdsa_PrivateKey \<Rightarrow> bytes \<Rightarrow> error + (int \<times> int)"
  big_MarshalText :: "int \<Rightarrow> bytes \<times> error option"
  grpc_Dial :: "rpc_event list \<Rightarrow> string \<Rightarrow> error option"
  ecaP_CreateCertificate :: "rpc_event list \<Rightarrow> ECertCreateReq \<Rightarrow> error + Creds"
  ecaP_ReadCACertificate :: "rpc_event list \<Rightarrow> error + Cert"
  ecaP_ReadCertificate :: "rpc_event list \<Rightarrow> ECertReadReq \<Rightarrow> error + Cert"
  x509_ParseCertificate :: "bytes \<Rightarrow> error + Certificate"
  pem_Decode :: "bytes \<Rightarrow> (pem_Block \<times> bytes) option"
  pem_EncodeToMemory :: "pem_Block \<Rightarrow> bytes"

subsection \<open>The node\<close>

text \<open>
  \<open>node.conf.getECACertsChainPath()\<close> and \<open>node.conf.getECAPAddr()\<close> return
  configured values; \<open>node.rootsCertPool\<close> is the pool of trusted certificates.
\<close>

record configuration =
  getECACertsChainPath :: string
  getECAPAddr :: string

record nodeImpl =
  conf :: configuration
  rootsCertPool :: "Certificate list"

subsection \<open>Files (io/ioutil)\<close>

text \<open>
  \<open>ioutil.WriteFile(filename, data, perm)\<close> opens the file with
  \<open>O_WRONLY|O_CREATE|O_TRUNC\<close>, writes \<open>data\<close> and closes it. A file that does
  not exist is created with \<open>perm\<close> less the bits of the umask; one that exists is
  truncated and keeps its mode. A write that fails leaves the bytes written before the
  failure.
\<close>

definition WriteFile :: "string \<Rightarrow> bytes \<Rightarrow> 32 word \<Rightarrow> world \<Rightarrow> error option \<times> world" where
  "WriteFile filename data perm w =
     (case openErr w filename ForWriting of
        Some err \<Rightarrow> (Some err, w)
      | None \<Rightarrow>
          (let m = (case files w filename of
                      Some f \<Rightarrow> mode f
                    | None \<Rightarrow> perm AND NOT (umask w))
           in case writeErr w filename of
                None \<Rightarrow>
                  (None, w\<lparr>files := (files w)(filename \<mapsto> \<lparr>content = data, mode = m\<rparr>)\<rparr>)
              | Some (n, err) \<Rightarrow>
                  (Some err,
                   w\<lparr>files := (files w)(filename \<mapsto> \<lparr>content = take n data, mode = m\<rparr>)\<rparr>)))"

text \<open>\<open>ioutil.ReadFile(filename)\<close>: the content of the file, or the error of opening it.\<close>

definition ReadFile :: "string \<Rightarrow> world \<Rightarrow> error + bytes" where
  "ReadFile filename w =
     (case openErr w filename ForReading of
        Some err \<Rightarrow> Inl err
      | None \<Rightarrow>
          (case files w filename of
             None \<Rightarrow> Inl (Error (''open '' @ filename @ '': no such file or directory''))
           | Some f \<Rightarrow> Inr (content f)))"

subsection \<open>The certificate pool (crypto/x509)\<close>

text \<open>\<open>CertPool.AddCert\<close> appends a certificate unless the pool holds an equal one.\<close>

definition AddCert :: "Certificate list \<Rightarrow> Certificate \<Rightarrow> Certificate list" where
  "AddCert pool cert = (if cert \<in> set pool then pool else pool @ [cert])"

text \<open>
  \<open>CertPool.AppendCertsFromPEM\<close>: the loop
  \<^verbatim>\<open>for len(pemCerts) > 0 { block, pemCerts = pem.Decode(pemCerts); ... }\<close>
  which stops at the first input without a block, skips a block that is not a
  \<open>CERTIFICATE\<close>, has headers, or does not parse, and adds every other one. It
  returns the pool and \<open>ok\<close>: whether a certificate was added. A loop that does not
  end has the value \<open>None\<close>.
\<close>

partial_function (option) AppendCertsFromPEM_loop ::
  "lib \<Rightarrow> Certificate list \<Rightarrow> bool \<Rightarrow> bytes \<Rightarrow> (Certificate list \<times> bool) option" where
  "AppendCertsFromPEM_loop l pool ok pemCerts =
     (if 0 < length pemCerts then
        (case pem_Decode l pemCerts of
           None \<Rightarrow> Some (pool, ok)
         | Some (block, rest) \<Rightarrow>
             if BlockType block \<noteq> ''CERTIFICATE'' \<or> length (Headers block) \<noteq> 0
             then AppendCertsFromPEM_loop l pool ok rest
             else (case x509_ParseCertificate l (Bytes block) of
                     Inl err \<Rightarrow> AppendCertsFromPEM_loop l pool ok rest
                   | Inr cert \<Rightarrow> AppendCertsFromPEM_loop l (AddCert pool cert) True rest))
      else Some (pool, ok))"

definition AppendCertsFromPEM ::
  "lib \<Rightarrow> Certificate list \<Rightarrow> bytes \<Rightarrow> (Certificate list \<times> bool) option" where
  "AppendCertsFromPEM l pool pemCerts = AppendCertsFromPEM_loop l pool False pemCerts"

subsection \<open>Helpers of openchain/crypto/utils\<close>

text \<open>
  Modelled from the spec: \<open>utils.DERToX509Certificate\<close> and \<open>utils.DERCertToPEM\<close>
  are defined in openchain/crypto/utils, which is not among the sources. The first parses
  DER bytes as a certificate; the second produces the textual certificate block that is
  stored: one PEM block of type \<open>CERTIFICATE\<close>, without headers, around the DER bytes.
\<close>

definition DERToX509Certificate :: "lib \<Rightarrow> bytes \<Rightarrow> error + Certificate" where
  "DERToX509Certificate l asn1Data = x509_ParseCertificate l asn1Data"

definition DERCertToPEM :: "lib \<Rightarrow> bytes \<Rightarrow> bytes" where
  "DERCertToPEM l der =
     pem_EncodeToMemory l \<lparr>BlockType = ''CERTIFICATE'', Headers = [], Bytes = der\<rparr>"

subsection \<open>The RPC wrappers\<close>

definition emit :: "rpc_event list \<Rightarrow> world \<Rightarrow> world" where
  "emit evs w = w\<lparr>wire := wire w @ evs\<rparr>"

text \<open>
  Each wrapper dials the configured address, returns the error of a failed dial, and
  otherwise makes one call and closes the connection (\<open>defer sockP.Close()\<close>). The
  parameters \<open>ctx\<close> and \<open>opts\<close> are not used by the bodies.
\<close>

definition callECACreateCertificate ::
  "lib \<Rightarrow> nodeImpl \<Rightarrow> ECertCreateReq \<Rightarrow> world \<Rightarrow> (error + Cert option \<times> bytes) \<times> world" where
  "callECACreateCertificate l node inp w =
     (let addr = getECAPAddr (conf node); w1 = emit [EvDial addr] w
      in case grpc_Dial l (wire w) addr of
           Some err \<Rightarrow> (Inl err, w1)
         | None \<Rightarrow>
             (let w2 = emit [EvCreateCertificate inp, EvClose] w1
              in case ecaP_CreateCertificate l (wire w1) inp of
                   Inl err \<Rightarrow> (Inl err, w2)
                 | Inr cred \<Rightarrow> (Inr (Creds.Cert cred, Creds.Key cred), w2)))"

text \<open>
  \<open>callECAReadCACertificate\<close> does not use its request \<open>in\<close>: it sends
  \<open>&protobuf.Empty{}\<close>.
\<close>

definition callECAReadCACertificate ::
  "lib \<Rightarrow> nodeImpl \<Rightarrow> ECertReadReq \<Rightarrow> world \<Rightarrow> (error + Cert) \<times> world" where
  "callECAReadCACertificate l node inp w =
     (let addr = getECAPAddr (conf node); w1 = emit [EvDial addr] w
      in case grpc_Dial l (wire w) addr of
           Some err \<Rightarrow> (Inl err, w1)
         | None \<Rightarrow>
             (let w2 = emit [EvReadCACertificate, EvClose] w1
              in case ecaP_ReadCACertificate l (wire w1) of
                   Inl err \<Rightarrow> (Inl err, w2)
                 | Inr cert \<Rightarrow> (Inr cert, w2)))"

definition callECAReadCertificate ::
  "lib \<Rightarrow> nodeImpl \<Rightarrow> ECertReadReq \<Rightarrow> world \<Rightarrow> (error + Cert) \<times> world" where
  "callECAReadCertificate l node inp w =
     (let addr = getECAPAddr (conf node); w1 = emit [EvDial addr] w
      in case grpc_Dial l (wire w) addr of
           Some err \<Rightarrow> (Inl err, w1)
         | None \<Rightarrow>
             (let w2 = emit [EvReadCertificate inp, EvClose] w1
              in case ecaP_ReadCertificate l (wire w1) inp of
                   Inl err \<Rightarrow> (Inl err, w2)
                 | Inr cert \<Rightarrow> (Inr cert, w2)))"

subsection \<open>getECACertificate\<close>

text \<open>The request prepared at the head of \<open>getECACertificate\<close>.\<close>

definition getECACertificate_req :: ECertReadReq where
  "getECACertificate_req =
     \<lparr>ECertReadReq.Id = Some \<lparr>Identity.Id = ''eca-root''\<rparr>, ECertReadReq.Hash = []\<rparr>"

definition getECACertificate :: "lib \<Rightarrow> nodeImpl \<Rightarrow> world \<Rightarrow> (error + bytes) \<times> world" where
  "getECACertificate l node w =
     (case callECAReadCACertificate l node getECACertificate_req w of
        (Inl err, w') \<Rightarrow> (Inl err, w')
      | (Inr pbCert, w') \<Rightarrow> (Inr (Cert.Cert pbCert), w'))"

subsection \<open>retrieveECACertsChain and loadECACertsChain\<close>

text \<open>The permission bits \<open>0700\<close> of the Go source, an octal literal.\<close>

definition perm_0700 :: "32 word" where
  "perm_0700 = 448"

definition retrieveECACertsChain ::
  "lib \<Rightarrow> nodeImpl \<Rightarrow> string \<Rightarrow> world \<Rightarrow> error option \<times> world" where
  "retrieveECACertsChain l node userID w =
     (case getECACertificate l node w of
        (Inl err, w1) \<Rightarrow> (Some err, w1)
      | (Inr ecaCertRaw, w1) \<Rightarrow>
          (case DERToX509Certificate l ecaCertRaw of
             Inl err \<Rightarrow> (Some err, w1)
           | Inr _ \<Rightarrow>
               (case WriteFile (getECACertsChainPath (conf node))
                       (DERCertToPEM l ecaCertRaw) perm_0700 w1 of
                  (Some err, w2) \<Rightarrow> (Some err, w2)
                | (None, w2) \<Rightarrow> (None, w2))))"

text \<open>
  \<open>loadECACertsChain\<close> returns its error and the node, whose pool it extends in place.
\<close>

definition loadECACertsChain ::
  "lib \<Rightarrow> nodeImpl \<Rightarrow> world \<Rightarrow> (error option \<times> nodeImpl) option" where
  "loadECACertsChain l node w =
     (case ReadFile (getECACertsChainPath (conf node)) w of
        Inl err \<Rightarrow> Some (Some err, node)
      | Inr chain \<Rightarrow>
          (case AppendCertsFromPEM l (rootsCertPool node) chain of
             None \<Rightarrow> None
           | Some (pool, ok) \<Rightarrow>
               if \<not> ok
               then Some (Some (Error ''Failed appending ECA certificates chain.''),
                          node\<lparr>rootsCertPool := pool\<rparr>)
               else Some (None, node\<lparr>rootsCertPool := pool\<rparr>)))"

subsection \<open>getEnrollmentCertificateFromECA\<close>

text \<open>
  The request literal: timestamp, identity, password and public key, with \<open>Sig: nil\<close>.
  \<open>t\<close> is the value \<open>time.Now().Unix()\<close> returned.
\<close>

definition newECertCreateReq :: "64 word \<Rightarrow> string \<Rightarrow> string \<Rightarrow> bytes \<Rightarrow> ECertCreateReq" where
  "newECertCreateReq t id' pw pubraw =
     \<lparr>ECertCreateReq.Ts = Some \<lparr>Seconds = t, Nanos = 0\<rparr>,
      ECertCreateReq.Id = Some \<lparr>Identity.Id = id'\<rparr>,
      ECertCreateReq.Pw = Some \<lparr>Password.Pw = pw\<rparr>,
      ECertCreateReq.Pub = Some \<lparr>obcca_PublicKey.Type = CryptoType_ECDSA, obcca_PublicKey.Key = pubraw\<rparr>,
      ECertCreateReq.Sig = None\<rparr>"

text \<open>
  The function reads the random source for the key, the clock for the timestamp and the
  random source again for the signature. The errors of the three marshalling calls are
  discarded (\<open>pubraw, _ :=\<close>, \<open>rawreq, _ :=\<close>, \<open>R, _ :=\<close>, \<open>S, _ :=\<close>).
  \<open>pbCert.Cert\<close> dereferences the certificate message of the answer and panics when
  the CA sent none.
\<close>

definition getEnrollmentCertificateFromECA ::
  "lib \<Rightarrow> nodeImpl \<Rightarrow> string \<Rightarrow> string \<Rightarrow> world
     \<Rightarrow> (ecdsa_PrivateKey \<times> bytes \<times> bytes) result \<times> world" where
  "getEnrollmentCertificateFromECA l node id' pw w =
     (let w1 = w\<lparr>randReads := Suc (randReads w)\<rparr>
      in case utils_NewECDSAKey l (randReads w) of
           Inl err \<Rightarrow> (Err err, w1)
         | Inr priv \<Rightarrow>
             (let (pubraw, _) = x509_MarshalPKIXPublicKey l (PublicKey priv);
                  req = newECertCreateReq (time_Now l (clockReads w1)) id' pw pubraw;
                  w2 = w1\<lparr>clockReads := Suc (clockReads w1)\<rparr>;
                  (rawreq, _) = proto_Marshal l req;
                  w3 = w2\<lparr>randReads := Suc (randReads w2)\<rparr>
              in case ecdsa_Sign l (randReads w2) priv (utils_Hash l rawreq) of
                   Inl err \<Rightarrow> (Err err, w3)
                 | Inr (r, s) \<Rightarrow>
                     (let (R, _) = big_MarshalText l r;
                          (S, _) = big_MarshalText l s;
                          req' = req\<lparr>ECertCreateReq.Sig :=
                                   Some \<lparr>Signature.Type = CryptoType_ECDSA,
                                         Signature.R = R, Signature.S = S\<rparr>\<rparr>
                      in case callECACreateCertificate l node req' w3 of
                           (Inl err, w4) \<Rightarrow> (Err err, w4)
                         | (Inr (pbCert, key), w4) \<Rightarrow>
                             (case pbCert of
                                None \<Rightarrow> (Panic, w4)
                              | Some c \<Rightarrow> (Ok (priv, Cert.Cert c, key), w4)))))"


section \<open>Notions used to state the properties\<close>

text \<open>The events a run appends to the trace of world \<open>w\<close>, read off the world it leaves.\<close>

definition newEvents :: "world \<Rightarrow> world \<Rightarrow> rpc_event list" where
  "newEvents w w' = drop (length (wire w)) (wire w')"

text \<open>
  For the attempt that starts in world \<open>w\<close> and generates the key \<open>priv\<close>: the request
  literal with the encoded public key, the result of \<open>ecdsa.Sign\<close> for the digest of its
  serialization, the request with the encoded signature \<open>(r, s)\<close> attached, and whether
  the four marshalling calls returned no error.
\<close>

definition unsignedReq ::
  "lib \<Rightarrow> world \<Rightarrow> string \<Rightarrow> string \<Rightarrow> ecdsa_PrivateKey \<Rightarrow> ECertCreateReq" where
  "unsignedReq l w id' pw priv =
     newECertCreateReq (time_Now l (clockReads w)) id' pw
       (fst (x509_MarshalPKIXPublicKey l (PublicKey priv)))"

definition signatureOf ::
  "lib \<Rightarrow> world \<Rightarrow> string \<Rightarrow> string \<Rightarrow> ecdsa_PrivateKey \<Rightarrow> error + (int \<times> int)" where
  "signatureOf l w id' pw priv =
     ecdsa_Sign l (Suc (randReads w)) priv
       (utils_Hash l (fst (proto_Marshal l (unsignedReq l w id' pw priv))))"

definition signedReq ::
  "lib \<Rightarrow> world \<Rightarrow> string \<Rightarrow> string \<Rightarrow> ecdsa_PrivateKey \<Rightarrow> int \<Rightarrow> int \<Rightarrow> ECertCreateReq" where
  "signedReq l w id' pw priv r s =
     (unsignedReq l w id' pw priv)
       \<lparr>ECertCreateReq.Sig :=
          Some \<lparr>Signature.Type = CryptoType_ECDSA,
                Signature.R = fst (big_MarshalText l r),
                Signature.S = fst (big_MarshalText l s)\<rparr>\<rparr>"


text \<open>
  The attempt that starts in world \<open>w\<close> goes through: the key \<open>priv\<close> is generated,
  the signature \<open>(r, s)\<close> made, the dial succeeds, and the CA answers the signed request
  with credentials \<open>cred\<close> that hold the certificate message \<open>c\<close>.
\<close>

definition attemptSucceeds ::
  "lib \<Rightarrow> nodeImpl \<Rightarrow> string \<Rightarrow> string \<Rightarrow> world \<Rightarrow> ecdsa_PrivateKey \<Rightarrow> int \<Rightarrow> int
     \<Rightarrow> Creds \<Rightarrow> Cert \<Rightarrow> bool" where
  "attemptSucceeds l node id' pw w priv r s cred c \<longleftrightarrow>
     utils_NewECDSAKey l (randReads w) = Inr priv \<and>
     signatureOf l w id' pw priv = Inr (r, s) \<and>
     grpc_Dial l (wire w) (getECAPAddr (conf node)) = None \<and>
     ecaP_CreateCertificate l (wire w @ [EvDial (getECAPAddr (conf node))])
       (signedReq l w id' pw priv r s) = Inr cred \<and>
     Creds.Cert cred = Some c"

text \<open>
  \<open>pem.Decode\<close> returns, with a block, the input that follows it: a shorter input.
\<close>

definition decode_shrinks :: "lib \<Rightarrow> bool" where
  "decode_shrinks l \<longleftrightarrow>
     (\<forall>d block rest. pem_Decode l d = Some (block, rest) \<longrightarrow> length rest < length d)"

text \<open>
  The blocks of a file content: the first \<open>n\<close> blocks that decoding it again and again
  yields. The certificates of a content are the blocks of type \<open>CERTIFICATE\<close> without
  headers whose bytes parse.
\<close>

fun pemBlocks :: "lib \<Rightarrow> nat \<Rightarrow> bytes \<Rightarrow> pem_Block list" where
  "pemBlocks l 0 d = []"
| "pemBlocks l (Suc n) d =
     (if d = [] then []
      else case pem_Decode l d of
             None \<Rightarrow> []
           | Some (block, rest) \<Rightarrow> block # pemBlocks l n rest)"

definition certOfBlock :: "lib \<Rightarrow> pem_Block \<Rightarrow> Certificate option" where
  "certOfBlock l block =
     (if BlockType block = ''CERTIFICATE'' \<and> Headers block = []
      then (case x509_ParseCertificate l (Bytes block) of
              Inl err \<Rightarrow> None
            | Inr cert \<Rightarrow> Some cert)
      else None)"

definition parseableCerts :: "lib \<Rightarrow> bytes \<Rightarrow> Certificate list" where
  "parseableCerts l d = List.map_filter (certOfBlock l) (pemBlocks l (length d) d)"

text \<open>
  Modelled from the spec: the check of an enrollment request by the CA, whose code is not
  among the sources. The signature verifies against the embedded public key over the
  canonical serialization with the signature cleared: the CA parses the public key and the
  two components of the signature out of the request, serializes the request with
  \<open>Sig\<close> unset, and verifies the signature over the digest of these bytes. Where the
  request does not serialize there is no canonical serialization and the check fails.
\<close>

record ca_lib =
  x509_ParsePKIXPublicKey :: "bytes \<Rightarrow> error + ecdsa_PublicKey"
  big_UnmarshalText :: "bytes \<Rightarrow> error + int"
  ecdsa_Verify :: "ecdsa_PublicKey \<Rightarrow> bytes \<Rightarrow> int \<Rightarrow> int \<Rightarrow> bool"



text \<open>A random source that never yields one key at two different reads.\<close>

definition freshKeys :: "lib \<Rightarrow> bool" where
  "freshKeys l \<longleftrightarrow>
     (\<forall>m n k. utils_NewECDSAKey l m = Inr k \<and> utils_NewECDSAKey l n = Inr k \<longrightarrow> m = n)"

text \<open>The collaborators with the errors of the three marshalling functions erased.\<close>

definition withoutMarshalErrors :: "lib \<Rightarrow> lib" where
  "withoutMarshalErrors l =
     l\<lparr>x509_MarshalPKIXPublicKey := \<lambda>k. (fst (x509_MarshalPKIXPublicKey l k), None),
       proto_Marshal := \<lambda>req. (fst (proto_Marshal l req), None),
       big_MarshalText := \<lambda>i. (fst (big_MarshalText l i), None)\<rparr>"

text \<open>The bits of a mode that give access to the group and to others: octal \<open>077\<close>.\<close>

definition perm_group_other :: "32 word" where
  "perm_group_other = 63"

section \<open>A concrete environment\<close>

text \<open>
  A small environment on which the functions can be run: a clock, a key source that numbers
  its keys, encodings that keep the length of what they encode, a CA that answers every call
  with the certificate bytes \<open>[48, 1]\<close>, a parser that accepts bytes starting with the
  DER sequence tag 48, and PEM blocks written as the byte 45 followed by the DER bytes.
\<close>

definition lib0 :: lib where
  "lib0 =
     \<lparr>time_Now = (\<lambda>n. 1456790400 + of_nat n),
      utils_NewECDSAKey =
        (\<lambda>n. Inr \<lparr>PublicKey = \<lparr>Curve = ''P-384'', X = int n + 2, Y = 2\<rparr>, D = int n + 7\<rparr>),
      x509_MarshalPKIXPublicKey = (\<lambda>k. (replicate (nat (X k)) 4, None)),
      proto_Marshal =
        (\<lambda>req. (case ECertCreateReq.Pub req of
                    None \<Rightarrow> []
                  | Some pub \<Rightarrow> 10 # obcca_PublicKey.Key pub, None)),
      utils_Hash = (\<lambda>b. [of_nat (length b)]),
      ecdsa_Sign = (\<lambda>n priv h. Inr (int (length h), int n)),
      big_MarshalText = (\<lambda>i. (replicate (nat i) 49, None)),
      grpc_Dial = (\<lambda>tr addr. None),
      ecaP_CreateCertificate =
        (\<lambda>tr req. Inr \<lparr>Creds.Cert = Some \<lparr>Cert.Cert = [48, 2]\<rparr>, Creds.Key = []\<rparr>),
      ecaP_ReadCACertificate = (\<lambda>tr. Inr \<lparr>Cert.Cert = [48, 1]\<rparr>),
      ecaP_ReadCertificate = (\<lambda>tr req. Inr \<lparr>Cert.Cert = [48, 2]\<rparr>),
      x509_ParseCertificate =
        (\<lambda>b. case b of
                [] \<Rightarrow> Inl (Error ''asn1: syntax error'')
              | x # xs \<Rightarrow> if x = 48 then Inr \<lparr>Raw = b\<rparr>
                          else Inl (Error ''asn1: structure error'')),
      pem_Decode =
        (\<lambda>d. case d of
                [] \<Rightarrow> None
              | x # xs \<Rightarrow> if x = 45
                          then Some (\<lparr>BlockType = ''CERTIFICATE'', Headers = [], Bytes = xs\<rparr>, [])
                          else None),
      pem_EncodeToMemory = (\<lambda>block. 45 # Bytes block)\<rparr>"

definition ca0 :: ca_lib where
  "ca0 =
     \<lparr>x509_ParsePKIXPublicKey = (\<lambda>b. Inr \<lparr>Curve = ''P-384'', X = int (length b), Y = 2\<rparr>),
      big_UnmarshalText = (\<lambda>b. Inr (int (length b))),
      ecdsa_Verify = (\<lambda>k h r s. r = int (length h))\<rparr>"

definition node0 :: nodeImpl where
  "node0 =
     \<lparr>conf = \<lparr>getECACertsChainPath = ''eca.cert'', getECAPAddr = ''localhost:50051''\<rparr>,
      rootsCertPool = []\<rparr>"

definition w0 :: world where
  "w0 =
     \<lparr>clockReads = 0, randReads = 0, wire = [], files = Map.empty, umask = 0,
      openErr = (\<lambda>p a. None), writeErr = (\<lambda>p. None)\<rparr>"

text \<open>
  The keys that the first and the second enrollment generate in this environment, and the
  signed request the first enrollment of \<open>alice\<close> sends.
\<close>

definition key0 :: ecdsa_PrivateKey where
  "key0 = \<lparr>PublicKey = \<lparr>Curve = ''P-384'', X = 2, Y = 2\<rparr>, D = 7\<rparr>"

definition key2 :: ecdsa_PrivateKey where
  "key2 = \<lparr>PublicKey = \<lparr>Curve = ''P-384'', X = 4, Y = 2\<rparr>, D = 9\<rparr>"

definition req0 :: ECertCreateReq where
  "req0 =
     \<lparr>ECertCreateReq.Ts = Some \<lparr>Seconds = 1456790400, Nanos = 0\<rparr>,
      ECertCreateReq.Id = Some \<lparr>Identity.Id = ''alice''\<rparr>,
      ECertCreateReq.Pw = Some \<lparr>Password.Pw = ''pw123''\<rparr>,
      ECertCreateReq.Pub =
        Some \<lparr>obcca_PublicKey.Type = CryptoType_ECDSA, obcca_PublicKey.Key = [4, 4]\<rparr>,
      ECertCreateReq.Sig =
        Some \<lparr>Signature.Type = CryptoType_ECDSA, Signature.R = [49], Signature.S = [49]\<rparr>\<rparr>"

text \<open>
  Collaborators that fail: a CA whose certificate does not parse, marshalling functions
  that return an error, a signer, a key generator and a dial that return an error.
\<close>

definition lib_badcert :: lib where
  "lib_badcert = lib0\<lparr>ecaP_ReadCACertificate := (\<lambda>tr. Inr \<lparr>Cert.Cert = [0]\<rparr>)\<rparr>"

definition lib_marshal_fails :: lib where
  "lib_marshal_fails =
     lib0\<lparr>x509_MarshalPKIXPublicKey := (\<lambda>k. ([], Some (Error ''x509: unsupported public key''))),
          proto_Marshal := (\<lambda>req. ([], Some (Error ''proto: marshal failed''))),
          big_MarshalText := (\<lambda>i. ([], Some (Error ''big: marshal failed'')))\<rparr>"

definition lib_sign_fails :: lib where
  "lib_sign_fails = lib0\<lparr>ecdsa_Sign := (\<lambda>n priv h. Inl (Error ''ecdsa: sign failed''))\<rparr>"

definition lib_keygen_fails :: lib where
  "lib_keygen_fails = lib0\<lparr>utils_NewECDSAKey := (\<lambda>n. Inl (Error ''ecdsa: no entropy''))\<rparr>"

definition lib_dial_fails :: lib where
  "lib_dial_fails = lib0\<lparr>grpc_Dial := (\<lambda>tr addr. Some (Error ''grpc: connection refused''))\<rparr>"

text \<open>
  Worlds: a trust file that holds no certificate, one that holds the certificate of the CA,
  one that exists with mode \<open>0644\<close> (420), and a disk that accepts one byte. And a node
  whose pool holds a certificate already.
\<close>

definition w_garbage :: world where
  "w_garbage = w0\<lparr>files := [''eca.cert'' \<mapsto> \<lparr>content = [104, 105], mode = 448\<rparr>]\<rparr>"

definition w_trusted :: world where
  "w_trusted = w0\<lparr>files := [''eca.cert'' \<mapsto> \<lparr>content = [45, 48, 1], mode = 448\<rparr>]\<rparr>"

definition w_existing :: world where
  "w_existing = w0\<lparr>files := [''eca.cert'' \<mapsto> \<lparr>content = [], mode = 420\<rparr>]\<rparr>"

definition w_diskfull :: world where
  "w_diskfull = w0\<lparr>writeErr := (\<lambda>p. Some (1, Error ''no space left on device''))\<rparr>"

definition node_pinned :: nodeImpl where
  "node_pinned = node0\<lparr>rootsCertPool := [\<lparr>Raw = [48, 9]\<rparr>]\<rparr>"


definition lib_rejects_first :: lib where
  "lib_rejects_first =
     lib0\<lparr>ecaP_CreateCertificate :=
            (\<lambda>tr req. if length tr \<le> 1 then Inl (Error ''eca: enrollment rejected'')
                       else Inr \<lparr>Creds.Cert = Some \<lparr>Cert.Cert = [48, 2]\<rparr>, Creds.Key = []\<rparr>)\<rparr>"

section \<open>Properties\<close>

subsection \<open>Evaluation in the concrete environment\<close>

lemmas env0_defs = lib0_def ca0_def node0_def w0_def

lemmas run_defs = getEnrollmentCertificateFromECA_def callECACreateCertificate_def emit_def
  Let_def newECertCreateReq_def getECACertificate_def callECAReadCACertificate_def
  retrieveECACertsChain_def DERToX509Certificate_def DERCertToPEM_def WriteFile_def ReadFile_def
  perm_0700_def getECACertificate_req_def loadECACertsChain_def AppendCertsFromPEM_def
  AppendCertsFromPEM_loop.simps AddCert_def newEvents_def


lemma lib0_decode_shrinks: "decode_shrinks lib0"
  by (auto simp: decode_shrinks_def lib0_def split: list.splits if_splits)

lemma lib0_freshKeys: "freshKeys lib0"
  by (auto simp: freshKeys_def lib0_def)

lemma w0_wire: "wire w0 = []"
  by (simp add: w0_def)

lemma enroll_alice:
  "getEnrollmentCertificateFromECA lib0 node0 ''alice'' ''pw123'' w0 =
     (Ok (key0, [48, 2], []),
      w0\<lparr>clockReads := 1, randReads := 2,
         wire := [EvDial ''localhost:50051'', EvCreateCertificate req0, EvClose]\<rparr>)"
  by (simp add: run_defs env0_defs req0_def key0_def eval_nat_numeral)

lemma enroll_alice_sent:
  "EvCreateCertificate req0 \<in>
     set (newEvents w0 (snd (getEnrollmentCertificateFromECA lib0 node0 ''alice'' ''pw123'' w0)))"
  by (simp add: enroll_alice newEvents_def w0_wire)

lemma fetch_badcert:
  "getECACertificate lib_badcert node0 w0 =
     (Inr [0], w0\<lparr>wire := [EvDial ''localhost:50051'', EvReadCACertificate, EvClose]\<rparr>)"
  by (simp add: getECACertificate_def callECAReadCACertificate_def emit_def Let_def
        lib_badcert_def env0_defs)

subsection \<open>What a run changes\<close>

lemma getECACertificate_world:
  assumes "getECACertificate l node w = (r, w')"
  shows "files w' = files w" and "umask w' = umask w" and "openErr w' = openErr w"
    and "writeErr w' = writeErr w" and "clockReads w' = clockReads w"
    and "randReads w' = randReads w"
  using assms
  by (auto simp: getECACertificate_def callECAReadCACertificate_def emit_def Let_def
           split: option.splits sum.splits prod.splits)

text \<open>
  A request reaches the wire only after the key was generated and the signature made, and
  it is the request literal with the signature attached.
\<close>

lemma getEnrollment_sent:
  assumes run: "getEnrollmentCertificateFromECA l node id' pw w = (res, w')"
      and sent: "EvCreateCertificate req \<in> set (newEvents w w')"
  shows "\<exists>priv r s.
           utils_NewECDSAKey l (randReads w) = Inr priv \<and>
           ecdsa_Sign l (Suc (randReads w)) priv
             (utils_Hash l (fst (proto_Marshal l
                (newECertCreateReq (time_Now l (clockReads w)) id' pw
                   (fst (x509_MarshalPKIXPublicKey l (PublicKey priv))))))) = Inr (r, s) \<and>
           req = (newECertCreateReq (time_Now l (clockReads w)) id' pw
                    (fst (x509_MarshalPKIXPublicKey l (PublicKey priv))))
                 \<lparr>ECertCreateReq.Sig :=
                    Some \<lparr>Signature.Type = CryptoType_ECDSA,
                          Signature.R = fst (big_MarshalText l r),
                          Signature.S = fst (big_MarshalText l s)\<rparr>\<rparr>"
  using run sent
  by (auto simp: getEnrollmentCertificateFromECA_def callECACreateCertificate_def emit_def
                 Let_def newEvents_def split_beta
           split: option.splits sum.splits prod.splits)

subsection \<open>A run whose key generation, signing and dial succeed\<close>

lemma getEnrollment_success_run:
  assumes key: "utils_NewECDSAKey l (randReads w) = Inr priv"
      and sign: "signatureOf l w id' pw priv = Inr (r, s)"
      and dial: "grpc_Dial l (wire w) (getECAPAddr (conf node)) = None"
  shows "newEvents w (snd (getEnrollmentCertificateFromECA l node id' pw w)) =
           [EvDial (getECAPAddr (conf node)),
            EvCreateCertificate (signedReq l w id' pw priv r s), EvClose]"
    and "clockReads (snd (getEnrollmentCertificateFromECA l node id' pw w)) =
           Suc (clockReads w)"
    and "fst (getEnrollmentCertificateFromECA l node id' pw w) =
           (case ecaP_CreateCertificate l (wire w @ [EvDial (getECAPAddr (conf node))])
                   (signedReq l w id' pw priv r s) of
              Inl err \<Rightarrow> Err err
            | Inr cred \<Rightarrow>
                (case Creds.Cert cred of
                   None \<Rightarrow> Panic
                 | Some c \<Rightarrow> Ok (priv, Cert.Cert c, Creds.Key cred)))"
  using key sign dial
  by (auto simp: getEnrollmentCertificateFromECA_def callECACreateCertificate_def emit_def
                 Let_def newEvents_def split_beta signatureOf_def signedReq_def unsignedReq_def
           split: option.splits sum.splits prod.splits)

lemma getEnrollment_sent_signed:
  assumes sent: "EvCreateCertificate req \<in>
                   set (newEvents w (snd (getEnrollmentCertificateFromECA l node id' pw w)))"
  shows "\<exists>priv r s.
           utils_NewECDSAKey l (randReads w) = Inr priv \<and>
           signatureOf l w id' pw priv = Inr (r, s) \<and>
           req = signedReq l w id' pw priv r s"
proof -
  have run: "getEnrollmentCertificateFromECA l node id' pw w =
      (fst (getEnrollmentCertificateFromECA l node id' pw w),
       snd (getEnrollmentCertificateFromECA l node id' pw w))"
    by simp
  from getEnrollment_sent[OF run sent] show ?thesis
    by (simp add: signatureOf_def signedReq_def unsignedReq_def)
qed

lemma signedReq_fields:
  "(signedReq l w id' pw priv r s)\<lparr>ECertCreateReq.Sig := None\<rparr> = unsignedReq l w id' pw priv"
  "ECertCreateReq.Pub (signedReq l w id' pw priv r s) =
     Some \<lparr>obcca_PublicKey.Type = CryptoType_ECDSA,
           obcca_PublicKey.Key = fst (x509_MarshalPKIXPublicKey l (PublicKey priv))\<rparr>"
  "ECertCreateReq.Sig (signedReq l w id' pw priv r s) =
     Some \<lparr>Signature.Type = CryptoType_ECDSA,
           Signature.R = fst (big_MarshalText l r),
           Signature.S = fst (big_MarshalText l s)\<rparr>"
  "ECertCreateReq.Ts (signedReq l w id' pw priv r s) =
     Some \<lparr>Seconds = time_Now l (clockReads w), Nanos = 0\<rparr>"
  by (simp_all add: signedReq_def unsignedReq_def newECertCreateReq_def)

lemma enroll_alice_key: "utils_NewECDSAKey lib0 (randReads w0) = Inr key0"
  by (simp add: lib0_def w0_def key0_def)

lemma enroll_alice_signature: "signatureOf lib0 w0 ''alice'' ''pw123'' key0 = Inr (1, 1)"
  by (simp add: signatureOf_def unsignedReq_def newECertCreateReq_def lib0_def w0_def key0_def)

lemma enroll_alice_dial: "grpc_Dial lib0 (wire w0) (getECAPAddr (conf node0)) = None"
  by (simp add: lib0_def)

lemma enroll_alice_signedReq: "signedReq lib0 w0 ''alice'' ''pw123'' key0 1 1 = req0"
  by (simp add: signedReq_def unsignedReq_def newECertCreateReq_def lib0_def w0_def key0_def
        req0_def eval_nat_numeral)

subsection \<open>The signed enrollment request\<close>




subsection \<open>The timestamp of the request\<close>

text \<open>
  Claim C10. Whenever key generation, signing and the dial succeed,
  \<open>getEnrollmentCertificateFromECA\<close> reads the clock once and puts on the wire one
  request, whose timestamp has zero nanoseconds and, as seconds, the value of
  \<open>time.Now().Unix()\<close> read in this call; and every enrollment request it puts on the
  wire carries this timestamp.
\<close>

theorem enrollment_request_timestamp_whole_seconds:
  "(\<forall>priv r s.
      utils_NewECDSAKey l (randReads w) = Inr priv \<and>
      signatureOf l w id' pw priv = Inr (r, s) \<and>
      grpc_Dial l (wire w) (getECAPAddr (conf node)) = None \<longrightarrow>
      newEvents w (snd (getEnrollmentCertificateFromECA l node id' pw w)) =
        [EvDial (getECAPAddr (conf node)),
         EvCreateCertificate (signedReq l w id' pw priv r s), EvClose] \<and>
      ECertCreateReq.Ts (signedReq l w id' pw priv r s) =
        Some \<lparr>Seconds = time_Now l (clockReads w), Nanos = 0\<rparr> \<and>
      clockReads (snd (getEnrollmentCertificateFromECA l node id' pw w)) = Suc (clockReads w)) \<and>
   (\<forall>req. EvCreateCertificate req \<in>
            set (newEvents w (snd (getEnrollmentCertificateFromECA l node id' pw w))) \<longrightarrow>
      ECertCreateReq.Ts req = Some \<lparr>Seconds = time_Now l (clockReads w), Nanos = 0\<rparr>)"
proof -
  have forward: "newEvents w (snd (getEnrollmentCertificateFromECA l node id' pw w)) =
        [EvDial (getECAPAddr (conf node)),
         EvCreateCertificate (signedReq l w id' pw priv r s), EvClose] \<and>
      ECertCreateReq.Ts (signedReq l w id' pw priv r s) =
        Some \<lparr>Seconds = time_Now l (clockReads w), Nanos = 0\<rparr> \<and>
      clockReads (snd (getEnrollmentCertificateFromECA l node id' pw w)) = Suc (clockReads w)"
    if h: "utils_NewECDSAKey l (randReads w) = Inr priv \<and>
           signatureOf l w id' pw priv = Inr (r, s) \<and>
           grpc_Dial l (wire w) (getECAPAddr (conf node)) = None"
    for priv r s
    using h getEnrollment_success_run(1,2)[of l w priv id' pw r s node]
    by (simp add: signedReq_fields)
  have backward:
    "ECertCreateReq.Ts req = Some \<lparr>Seconds = time_Now l (clockReads w), Nanos = 0\<rparr>"
    if sent: "EvCreateCertificate req \<in>
            set (newEvents w (snd (getEnrollmentCertificateFromECA l node id' pw w)))"
    for req
    using getEnrollment_sent_signed[OF sent] by (auto simp: signedReq_fields)
  from forward backward show ?thesis by blast
qed

theorem enrollment_request_timestamp_witness:
  "utils_NewECDSAKey lib0 (randReads w0) = Inr key0 \<and>
   signatureOf lib0 w0 ''alice'' ''pw123'' key0 = Inr (1, 1) \<and>
   grpc_Dial lib0 (wire w0) (getECAPAddr (conf node0)) = None \<and>
   newEvents w0 (snd (getEnrollmentCertificateFromECA lib0 node0 ''alice'' ''pw123'' w0)) =
     [EvDial (getECAPAddr (conf node0)), EvCreateCertificate req0, EvClose] \<and>
   ECertCreateReq.Ts req0 = Some \<lparr>Seconds = time_Now lib0 (clockReads w0), Nanos = 0\<rparr> \<and>
   clockReads (snd (getEnrollmentCertificateFromECA lib0 node0 ''alice'' ''pw123'' w0)) =
     Suc (clockReads w0)"
proof -
  from enrollment_request_timestamp_whole_seconds
         [where l = lib0 and w = w0 and node = node0 and id' = "''alice''" and pw = "''pw123''"]
       enroll_alice_key enroll_alice_signature enroll_alice_dial
  have "newEvents w0 (snd (getEnrollmentCertificateFromECA lib0 node0 ''alice'' ''pw123'' w0)) =
     [EvDial (getECAPAddr (conf node0)),
      EvCreateCertificate (signedReq lib0 w0 ''alice'' ''pw123'' key0 1 1), EvClose] \<and>
     ECertCreateReq.Ts (signedReq lib0 w0 ''alice'' ''pw123'' key0 1 1) =
       Some \<lparr>Seconds = time_Now lib0 (clockReads w0), Nanos = 0\<rparr> \<and>
     clockReads (snd (getEnrollmentCertificateFromECA lib0 node0 ''alice'' ''pw123'' w0)) =
       Suc (clockReads w0)"
    by blast
  with enroll_alice_key enroll_alice_signature enroll_alice_dial
  show ?thesis by (simp add: enroll_alice_signedReq)
qed

subsection \<open>The loop of AppendCertsFromPEM\<close>

lemma AddCert_not_Nil: "AddCert pool cert \<noteq> []"
  by (auto simp: AddCert_def)

lemma foldl_AddCert_not_Nil: "pool \<noteq> [] \<Longrightarrow> foldl AddCert pool cs \<noteq> []"
  by (induction cs arbitrary: pool) (simp_all add: AddCert_not_Nil)

lemma foldl_AddCert_Cons_not_Nil: "cs \<noteq> [] \<Longrightarrow> foldl AddCert pool cs \<noteq> []"
  by (cases cs) (simp_all add: foldl_AddCert_not_Nil AddCert_not_Nil)

text \<open>
  When decoding shortens the input, the loop ends, and it has added the certificates of the
  content in their order.
\<close>

lemma AppendCertsFromPEM_loop_blocks:
  assumes shr: "decode_shrinks l"
  shows "length d \<le> n \<Longrightarrow>
         AppendCertsFromPEM_loop l pool ok d =
           Some (foldl AddCert pool (List.map_filter (certOfBlock l) (pemBlocks l n d)),
                 ok \<or> List.map_filter (certOfBlock l) (pemBlocks l n d) \<noteq> [])"
proof (induction n arbitrary: d pool ok)
  case 0
  then have "d = []" by simp
  then show ?case
    by (subst AppendCertsFromPEM_loop.simps) (simp add: map_filter_simps)
next
  case (Suc n)
  show ?case
  proof (cases "d = []")
    case True
    then show ?thesis
      by (subst AppendCertsFromPEM_loop.simps) (simp add: map_filter_simps)
  next
    case False
    show ?thesis
    proof (cases "pem_Decode l d")
      case None
      with False show ?thesis
        by (subst AppendCertsFromPEM_loop.simps) (simp add: map_filter_simps)
    next
      case (Some a)
      obtain block rest where a: "a = (block, rest)" by (cases a)
      from shr Some a have "length rest < length d"
        unfolding decode_shrinks_def by blast
      with Suc.prems have len: "length rest \<le> n" by simp
      note IH = Suc.IH[OF len]
      have cb: "certOfBlock l block =
          (if BlockType block \<noteq> ''CERTIFICATE'' \<or> length (Headers block) \<noteq> 0 then None
           else case x509_ParseCertificate l (Bytes block) of
                  Inl err \<Rightarrow> None
                | Inr cert \<Rightarrow> Some cert)"
        by (simp add: certOfBlock_def)
      show ?thesis
        by (subst AppendCertsFromPEM_loop.simps)
           (cases "BlockType block \<noteq> ''CERTIFICATE'' \<or> length (Headers block) \<noteq> 0";
            cases "x509_ParseCertificate l (Bytes block)";
            simp add: False Some a IH map_filter_simps cb)
    qed
  qed
qed

lemma AppendCertsFromPEM_certs:
  assumes "decode_shrinks l"
  shows "AppendCertsFromPEM l pool d =
           Some (foldl AddCert pool (parseableCerts l d), parseableCerts l d \<noteq> [])"
  using AppendCertsFromPEM_loop_blocks[OF assms, of d "length d" pool False]
  by (simp add: AppendCertsFromPEM_def parseableCerts_def)

lemma parseableCerts_Nil: "parseableCerts l [] = []"
  by (simp add: parseableCerts_def map_filter_simps)

subsection \<open>Loading a trust file without certificates\<close>

text \<open>
  Claim C3. When the trust file is empty or holds no parseable certificate block,
  \<open>loadECACertsChain\<close> returns the error \<open>Failed appending ECA certificates chain.\<close>
  and leaves the pool as it was; and whenever it returns without error, the pool is not
  empty.
\<close>

theorem loadECACertsChain_fails_without_certificate:
  assumes "decode_shrinks l"
  shows "(\<forall>chain. ReadFile (getECACertsChainPath (conf node)) w = Inr chain \<and>
                  (chain = [] \<or> parseableCerts l chain = []) \<longrightarrow>
            loadECACertsChain l node w =
              Some (Some (Error ''Failed appending ECA certificates chain.''), node)) \<and>
         (\<forall>node'. loadECACertsChain l node w = Some (None, node') \<longrightarrow>
            rootsCertPool node' \<noteq> [])"
proof (intro conjI allI impI)
  fix chain
  assume h: "ReadFile (getECACertsChainPath (conf node)) w = Inr chain \<and>
             (chain = [] \<or> parseableCerts l chain = [])"
  then have "parseableCerts l chain = []"
    using parseableCerts_Nil by blast
  with h show "loadECACertsChain l node w =
              Some (Some (Error ''Failed appending ECA certificates chain.''), node)"
    by (simp add: loadECACertsChain_def AppendCertsFromPEM_certs[OF assms])
next
  fix node'
  assume "loadECACertsChain l node w = Some (None, node')"
  then show "rootsCertPool node' \<noteq> []"
    by (auto simp: loadECACertsChain_def AppendCertsFromPEM_certs[OF assms]
                   foldl_AddCert_Cons_not_Nil
             split: sum.splits if_splits)
qed

theorem loadECACertsChain_fails_witness:
  "decode_shrinks lib0 \<and>
   ReadFile (getECACertsChainPath (conf node0)) w_garbage = Inr [104, 105] \<and>
   parseableCerts lib0 [104, 105] = [] \<and>
   loadECACertsChain lib0 node0 w_garbage =
     Some (Some (Error ''Failed appending ECA certificates chain.''), node0) \<and>
   loadECACertsChain lib0 node0 w_trusted =
     Some (None, node0\<lparr>rootsCertPool := [\<lparr>Raw = [48, 1]\<rparr>]\<rparr>) \<and>
   rootsCertPool (node0\<lparr>rootsCertPool := [\<lparr>Raw = [48, 1]\<rparr>]\<rparr>) \<noteq> []"
proof -
  have r: "ReadFile (getECACertsChainPath (conf node0)) w_garbage = Inr [104, 105]"
    by (simp add: ReadFile_def w_garbage_def node0_def w0_def)
  have p: "parseableCerts lib0 [104, 105] = []"
    by (simp add: parseableCerts_def lib0_def map_filter_simps)
  have ld: "loadECACertsChain lib0 node0 w_trusted =
      Some (None, node0\<lparr>rootsCertPool := [\<lparr>Raw = [48, 1]\<rparr>]\<rparr>)"
    by (simp add: run_defs env0_defs w_trusted_def)
  from loadECACertsChain_fails_without_certificate[OF lib0_decode_shrinks, of node0 w_garbage]
    loadECACertsChain_fails_without_certificate[OF lib0_decode_shrinks, of node0 w_trusted]
    r p ld lib0_decode_shrinks
  show ?thesis by blast
qed

subsection \<open>A fetched certificate that does not parse\<close>

text \<open>
  Claim C7. When the bytes fetched from the CA do not parse as a certificate,
  \<open>retrieveECACertsChain\<close> returns the error of the parser and leaves the world as the
  fetch left it: nothing is written, the files are those of before.
\<close>

theorem retrieveECACertsChain_parse_error_before_persist:
  assumes "getECACertificate l node w = (Inr ecaCertRaw, w1)"
      and "DERToX509Certificate l ecaCertRaw = Inl err"
  shows "retrieveECACertsChain l node userID w = (Some err, w1) \<and> files w1 = files w"
  using assms getECACertificate_world(1)[OF assms(1)]
  by (simp add: retrieveECACertsChain_def)

theorem retrieveECACertsChain_parse_error_witness:
  "getECACertificate lib_badcert node0 w0 =
     (Inr [0], w0\<lparr>wire := [EvDial ''localhost:50051'', EvReadCACertificate, EvClose]\<rparr>) \<and>
   DERToX509Certificate lib_badcert [0] = Inl (Error ''asn1: structure error'') \<and>
   retrieveECACertsChain lib_badcert node0 ''validator'' w0 =
     (Some (Error ''asn1: structure error''),
      w0\<lparr>wire := [EvDial ''localhost:50051'', EvReadCACertificate, EvClose]\<rparr>) \<and>
   files (w0\<lparr>wire := [EvDial ''localhost:50051'', EvReadCACertificate, EvClose]\<rparr>) = files w0"
proof -
  have p: "DERToX509Certificate lib_badcert [0] = Inl (Error ''asn1: structure error'')"
    by (simp add: DERToX509Certificate_def lib_badcert_def lib0_def)
  from retrieveECACertsChain_parse_error_before_persist[OF fetch_badcert p, of "''validator''"]
    fetch_badcert p
  show ?thesis by simp
qed

subsection \<open>Persisting and loading the trust file\<close>

lemma WriteFile_world:
  assumes "WriteFile filename d perm w = (r, w')"
  shows "openErr w' = openErr w" and "writeErr w' = writeErr w" and "umask w' = umask w"
    and "wire w' = wire w" and "p \<noteq> filename \<Longrightarrow> files w' p = files w p"
  using assms
  by (auto simp: WriteFile_def Let_def split: option.splits prod.splits)

lemma WriteFile_success:
  assumes "WriteFile filename d perm w = (None, w')"
  shows "files w' filename =
           Some \<lparr>content = d,
                 mode = (case files w filename of
                           Some f \<Rightarrow> mode f
                         | None \<Rightarrow> perm AND NOT (umask w))\<rparr>"
  using assms
  by (auto simp: WriteFile_def Let_def split: option.splits prod.splits)

text \<open>
  A return of \<open>retrieveECACertsChain\<close> without error: the fetch gave bytes, they parsed,
  and the write of their PEM form to the configured path succeeded.
\<close>

lemma retrieveECACertsChain_success:
  assumes "retrieveECACertsChain l node userID w = (None, w')"
  shows "\<exists>der w1 cert.
           getECACertificate l node w = (Inr der, w1) \<and>
           x509_ParseCertificate l der = Inr cert \<and>
           WriteFile (getECACertsChainPath (conf node)) (DERCertToPEM l der) perm_0700 w1
             = (None, w')"
  using assms
  by (auto simp: retrieveECACertsChain_def DERToX509Certificate_def
           split: prod.splits sum.splits option.splits)

lemma AppendCertsFromPEM_single:
  assumes "pem_Decode l pemCerts =
             Some (\<lparr>BlockType = ''CERTIFICATE'', Headers = [], Bytes = der\<rparr>, [])"
      and "pemCerts \<noteq> []"
      and "x509_ParseCertificate l der = Inr cert"
  shows "AppendCertsFromPEM l pool pemCerts = Some (AddCert pool cert, True)"
proof -
  have "AppendCertsFromPEM_loop l (AddCert pool cert) True [] = Some (AddCert pool cert, True)"
    by (subst AppendCertsFromPEM_loop.simps) simp
  with assms show ?thesis
    unfolding AppendCertsFromPEM_def
    by (subst AppendCertsFromPEM_loop.simps) simp
qed

text \<open>
  Claim C2, as stated: for every non-empty byte sequence and every path, loading after the
  write succeeds and yields a pool of exactly the certificates encoded in the sequence.
  It fails for the non-empty sequence \<open>[0]\<close>, which is no certificate: the write
  succeeds and the load returns an error. And for the certificate \<open>[48, 1]\<close> and a node
  whose pool holds the certificate \<open>[48, 9]\<close>, the load succeeds and the pool holds
  both.
\<close>

theorem load_after_persist_counterexample:
  "fst (WriteFile ''eca.cert'' (DERCertToPEM lib0 [0]) perm_0700 w0) = None \<and>
   loadECACertsChain lib0 node0
     (snd (WriteFile ''eca.cert'' (DERCertToPEM lib0 [0]) perm_0700 w0)) =
     Some (Some (Error ''Failed appending ECA certificates chain.''), node0) \<and>
   fst (WriteFile ''eca.cert'' (DERCertToPEM lib0 [48, 1]) perm_0700 w0) = None \<and>
   loadECACertsChain lib0 node_pinned
     (snd (WriteFile ''eca.cert'' (DERCertToPEM lib0 [48, 1]) perm_0700 w0)) =
     Some (None, node_pinned\<lparr>rootsCertPool := [\<lparr>Raw = [48, 9]\<rparr>, \<lparr>Raw = [48, 1]\<rparr>]\<rparr>)"
  by (simp add: run_defs env0_defs node_pinned_def)

text \<open>
  Claim C2, amended. \<open>retrieveECACertsChain\<close> writes only bytes that parse as a
  certificate. When it returns without error, the PEM form of the fetched bytes decodes to
  the one block it was made of, and the file opens for reading, \<open>loadECACertsChain\<close>
  succeeds and adds exactly the certificate encoded in the fetched bytes to the pool of the
  node: the pool holds what it held before and this certificate, and this certificate alone
  when it was empty.
\<close>

theorem load_after_retrieve_adds_the_certificate:
  assumes retr: "retrieveECACertsChain l node userID w = (None, w')"
      and fetched: "fst (getECACertificate l node w) = Inr der"
      and pem: "pem_Decode l (DERCertToPEM l der) =
                  Some (\<lparr>BlockType = ''CERTIFICATE'', Headers = [], Bytes = der\<rparr>, [])"
      and nonempty: "DERCertToPEM l der \<noteq> []"
      and readable: "openErr w' (getECACertsChainPath (conf node)) ForReading = None"
  shows "\<exists>cert. x509_ParseCertificate l der = Inr cert \<and>
           loadECACertsChain l node w' =
             Some (None, node\<lparr>rootsCertPool := AddCert (rootsCertPool node) cert\<rparr>) \<and>
           (rootsCertPool node = [] \<longrightarrow>
              loadECACertsChain l node w' = Some (None, node\<lparr>rootsCertPool := [cert]\<rparr>))"
proof -
  from retrieveECACertsChain_success[OF retr] fetched obtain w1 cert where
    parse: "x509_ParseCertificate l der = Inr cert" and
    wr: "WriteFile (getECACertsChainPath (conf node)) (DERCertToPEM l der) perm_0700 w1
           = (None, w')"
    by auto
  from WriteFile_success[OF wr] readable
  have rd: "ReadFile (getECACertsChainPath (conf node)) w' = Inr (DERCertToPEM l der)"
    by (simp add: ReadFile_def)
  have ld: "loadECACertsChain l node w' =
      Some (None, node\<lparr>rootsCertPool := AddCert (rootsCertPool node) cert\<rparr>)"
    by (simp add: loadECACertsChain_def rd AppendCertsFromPEM_single[OF pem nonempty parse])
  have "AddCert [] cert = [cert]"
    by (simp add: AddCert_def)
  with parse ld show ?thesis by auto
qed

lemma retrieve_validator:
  "retrieveECACertsChain lib0 node0 ''validator'' w0 =
     (None,
      w0\<lparr>wire := [EvDial ''localhost:50051'', EvReadCACertificate, EvClose],
         files := [''eca.cert'' \<mapsto> \<lparr>content = [45, 48, 1], mode = 448\<rparr>]\<rparr>)"
  by (simp add: run_defs env0_defs)

theorem load_after_retrieve_witness:
  "retrieveECACertsChain lib0 node0 ''validator'' w0 =
     (None,
      w0\<lparr>wire := [EvDial ''localhost:50051'', EvReadCACertificate, EvClose],
         files := [''eca.cert'' \<mapsto> \<lparr>content = [45, 48, 1], mode = 448\<rparr>]\<rparr>) \<and>
   fst (getECACertificate lib0 node0 w0) = Inr [48, 1] \<and>
   rootsCertPool node0 = [] \<and>
   loadECACertsChain lib0 node0
     (w0\<lparr>wire := [EvDial ''localhost:50051'', EvReadCACertificate, EvClose],
         files := [''eca.cert'' \<mapsto> \<lparr>content = [45, 48, 1], mode = 448\<rparr>]\<rparr>) =
     Some (None, node0\<lparr>rootsCertPool := [\<lparr>Raw = [48, 1]\<rparr>]\<rparr>)"
proof -
  have fetched: "fst (getECACertificate lib0 node0 w0) = Inr [48, 1]"
    by (simp add: run_defs env0_defs)
  have pem: "pem_Decode lib0 (DERCertToPEM lib0 [48, 1]) =
               Some (\<lparr>BlockType = ''CERTIFICATE'', Headers = [], Bytes = [48, 1]\<rparr>, [])"
    by (simp add: DERCertToPEM_def lib0_def)
  have nonempty: "DERCertToPEM lib0 [48, 1] \<noteq> []"
    by (simp add: DERCertToPEM_def lib0_def)
  have readable: "openErr (w0\<lparr>wire := [EvDial ''localhost:50051'', EvReadCACertificate, EvClose],
         files := [''eca.cert'' \<mapsto> \<lparr>content = [45, 48, 1], mode = 448\<rparr>]\<rparr>)
       (getECACertsChainPath (conf node0)) ForReading = None"
    by (simp add: w0_def)
  have parse: "x509_ParseCertificate lib0 [48, 1] = Inr \<lparr>Raw = [48, 1]\<rparr>"
    by (simp add: lib0_def)
  have pool: "rootsCertPool node0 = []"
    by (simp add: node0_def)
  from load_after_retrieve_adds_the_certificate[OF retrieve_validator fetched pem nonempty readable]
    parse pool retrieve_validator fetched
  show ?thesis by auto
qed

subsection \<open>The write is made in place\<close>

text \<open>
  Claim C5, as stated: no partially written trust file is ever visible at the target path.
  It fails on a disk that accepts one byte: the write returns its error, and the target
  path holds the first byte of the three that were to be written.
\<close>

theorem persist_partial_file_counterexample:
  "fst (retrieveECACertsChain lib0 node0 ''validator'' w_diskfull) =
     Some (Error ''no space left on device'') \<and>
   map_option content
     (files (snd (retrieveECACertsChain lib0 node0 ''validator'' w_diskfull)) ''eca.cert'') =
     Some [45] \<and>
   DERCertToPEM lib0 [48, 1] = [45, 48, 1]"
  by (simp add: run_defs env0_defs w_diskfull_def)

text \<open>
  Claim C5, amended. \<open>retrieveECACertsChain\<close> writes the trust file in place, with one
  \<open>ioutil.WriteFile\<close> at the configured path: no other path changes; when it returns
  without error the file holds the complete PEM form of the fetched certificate; when the
  write fails after \<open>n\<close> bytes the error is returned and the file at the configured path
  holds the first \<open>n\<close> bytes.
\<close>

theorem retrieveECACertsChain_writes_in_place:
  assumes run: "retrieveECACertsChain l node userID w = (res, w')"
  shows "(\<forall>p. p \<noteq> getECACertsChainPath (conf node) \<longrightarrow> files w' p = files w p) \<and>
         (res = None \<longrightarrow>
            (\<exists>der. fst (getECACertificate l node w) = Inr der \<and>
                   map_option content (files w' (getECACertsChainPath (conf node))) =
                     Some (DERCertToPEM l der))) \<and>
         (\<forall>der cert n err.
            fst (getECACertificate l node w) = Inr der \<and>
            DERToX509Certificate l der = Inr cert \<and>
            openErr w (getECACertsChainPath (conf node)) ForWriting = None \<and>
            writeErr w (getECACertsChainPath (conf node)) = Some (n, err) \<longrightarrow>
            res = Some err \<and>
            map_option content (files w' (getECACertsChainPath (conf node))) =
              Some (take n (DERCertToPEM l der)))"
proof -
  obtain r1 w1 where f: "getECACertificate l node w = (r1, w1)"
    by (cases "getECACertificate l node w")
  note fw = getECACertificate_world[OF f]
  have other: "files w' p = files w p" if ne: "p \<noteq> getECACertsChainPath (conf node)" for p
  proof (cases r1)
    case (Inl e)
    with run f fw(1) show ?thesis
      by (simp add: retrieveECACertsChain_def)
  next
    case fetched: (Inr der)
    show ?thesis
    proof (cases "DERToX509Certificate l der")
      case (Inl e)
      with run f fetched fw(1) show ?thesis
        by (simp add: retrieveECACertsChain_def)
    next
      case parsed: (Inr cert)
      obtain r2 w2 where
        wr: "WriteFile (getECACertsChainPath (conf node)) (DERCertToPEM l der) perm_0700 w1
               = (r2, w2)"
        by (cases "WriteFile (getECACertsChainPath (conf node)) (DERCertToPEM l der)
                     perm_0700 w1")
      from run f fetched parsed wr have "w' = w2"
        by (auto simp: retrieveECACertsChain_def split: option.splits)
      with WriteFile_world(5)[OF wr ne] fw(1) show ?thesis by simp
    qed
  qed
  have complete: "\<exists>der. fst (getECACertificate l node w) = Inr der \<and>
                   map_option content (files w' (getECACertsChainPath (conf node))) =
                     Some (DERCertToPEM l der)" if "res = None"
  proof -
    from that run retrieveECACertsChain_success[of l node userID w w']
    obtain der w2 where "getECACertificate l node w = (Inr der, w2)"
      and "WriteFile (getECACertsChainPath (conf node)) (DERCertToPEM l der) perm_0700 w2
             = (None, w')"
      by auto
    then show ?thesis
      by (auto dest: WriteFile_success)
  qed
  have partial: "res = Some err \<and>
            map_option content (files w' (getECACertsChainPath (conf node))) =
              Some (take n (DERCertToPEM l der))"
    if h: "fst (getECACertificate l node w) = Inr der \<and>
            DERToX509Certificate l der = Inr cert \<and>
            openErr w (getECACertsChainPath (conf node)) ForWriting = None \<and>
            writeErr w (getECACertsChainPath (conf node)) = Some (n, err)"
    for der cert n err
  proof -
    from h f have r1: "r1 = Inr der" by simp
    from fw h
    have "openErr w1 (getECACertsChainPath (conf node)) ForWriting = None"
      and "writeErr w1 (getECACertsChainPath (conf node)) = Some (n, err)"
      by simp_all
    with run f r1 h show ?thesis
      by (auto simp: retrieveECACertsChain_def WriteFile_def Let_def)
  qed
  from other complete partial show ?thesis by blast
qed

theorem retrieveECACertsChain_writes_in_place_witness:
  "fst (getECACertificate lib0 node0 w_diskfull) = Inr [48, 1] \<and>
   DERToX509Certificate lib0 [48, 1] = Inr \<lparr>Raw = [48, 1]\<rparr> \<and>
   openErr w_diskfull (getECACertsChainPath (conf node0)) ForWriting = None \<and>
   writeErr w_diskfull (getECACertsChainPath (conf node0)) =
     Some (1, Error ''no space left on device'') \<and>
   fst (retrieveECACertsChain lib0 node0 ''validator'' w_diskfull) =
     Some (Error ''no space left on device'') \<and>
   map_option content
     (files (snd (retrieveECACertsChain lib0 node0 ''validator'' w_diskfull))
        (getECACertsChainPath (conf node0))) =
     Some (take 1 (DERCertToPEM lib0 [48, 1])) \<and>
   ''tmp'' \<noteq> getECACertsChainPath (conf node0) \<and>
   files (snd (retrieveECACertsChain lib0 node0 ''validator'' w_diskfull)) ''tmp'' =
     files w_diskfull ''tmp'' \<and>
   fst (retrieveECACertsChain lib0 node0 ''validator'' w0) = None \<and>
   (\<exists>der. fst (getECACertificate lib0 node0 w0) = Inr der \<and>
      map_option content
        (files (snd (retrieveECACertsChain lib0 node0 ''validator'' w0))
           (getECACertsChainPath (conf node0))) =
        Some (DERCertToPEM lib0 der))"
proof -
  have run: "retrieveECACertsChain lib0 node0 ''validator'' w_diskfull =
      (fst (retrieveECACertsChain lib0 node0 ''validator'' w_diskfull),
       snd (retrieveECACertsChain lib0 node0 ''validator'' w_diskfull))"
    by simp
  have run0: "retrieveECACertsChain lib0 node0 ''validator'' w0 =
      (fst (retrieveECACertsChain lib0 node0 ''validator'' w0),
       snd (retrieveECACertsChain lib0 node0 ''validator'' w0))"
    by simp
  have f: "fst (getECACertificate lib0 node0 w_diskfull) = Inr [48, 1]"
    by (simp add: run_defs env0_defs w_diskfull_def)
  have p: "DERToX509Certificate lib0 [48, 1] = Inr \<lparr>Raw = [48, 1]\<rparr>"
    by (simp add: DERToX509Certificate_def lib0_def)
  have ow: "openErr w_diskfull (getECACertsChainPath (conf node0)) ForWriting = None"
    by (simp add: w_diskfull_def w0_def)
  have we: "writeErr w_diskfull (getECACertsChainPath (conf node0)) =
     Some (1, Error ''no space left on device'')"
    by (simp add: w_diskfull_def w0_def)
  have ne: "''tmp'' \<noteq> getECACertsChainPath (conf node0)"
    by (simp add: node0_def)
  have ok: "fst (retrieveECACertsChain lib0 node0 ''validator'' w0) = None"
    by (simp add: retrieve_validator)
  from retrieveECACertsChain_writes_in_place[OF run]
    retrieveECACertsChain_writes_in_place[OF run0] f p ow we ne ok
  show ?thesis by blast
qed

subsection \<open>The mode of the trust file\<close>

lemma perm_0700_no_group_other: "(perm_0700 AND NOT u) AND perm_group_other = 0"
proof -
  have "((448::32 word) AND NOT u) AND 63 = (448 AND 63) AND NOT u"
    by (simp only: and.assoc and.commute and.left_commute)
  also have "\<dots> = 0" by simp
  finally show ?thesis by (simp add: perm_0700_def perm_group_other_def)
qed

lemma perm_0700_unmasked: "(u :: 32 word) AND perm_0700 = 0 \<Longrightarrow> perm_0700 AND NOT u = perm_0700"
  by (auto simp: bit_eq_iff bit_and_iff bit_not_iff)

text \<open>
  Claim C8, as stated: every successful persist leaves the file accessible to its owner
  only. It fails when the file exists: a trust file with mode \<open>0644\<close> (420) is
  rewritten and keeps this mode, with which group and others may read it.
\<close>

theorem persist_mode_counterexample:
  "fst (retrieveECACertsChain lib0 node0 ''validator'' w_existing) = None \<and>
   map_option mode
     (files (snd (retrieveECACertsChain lib0 node0 ''validator'' w_existing)) ''eca.cert'') =
     Some 420 \<and>
   (420 :: 32 word) AND perm_group_other = 36"
  by (simp add: run_defs env0_defs w_existing_def perm_group_other_def)

text \<open>
  Claim C8, amended. \<open>retrieveECACertsChain\<close> asks for the mode \<open>0700\<close>. When it
  returns without error and there was no file at the path, the file it created has the mode
  \<open>0700\<close> less the bits of the umask: no access for group or others, and read, write and
  execute for the owner when the umask masks none of the three. A file that was there
  before keeps its mode.
\<close>

theorem retrieveECACertsChain_mode:
  assumes run: "retrieveECACertsChain l node userID w = (None, w')"
  shows "\<exists>f. files w' (getECACertsChainPath (conf node)) = Some f \<and>
           (case files w (getECACertsChainPath (conf node)) of
              None \<Rightarrow>
                mode f = perm_0700 AND NOT (umask w) \<and>
                mode f AND perm_group_other = 0 \<and>
                (umask w AND perm_0700 = 0 \<longrightarrow> mode f = perm_0700)
            | Some f0 \<Rightarrow> mode f = mode f0)"
proof -
  from retrieveECACertsChain_success[OF run] obtain der w1 where
    f: "getECACertificate l node w = (Inr der, w1)" and
    wr: "WriteFile (getECACertsChainPath (conf node)) (DERCertToPEM l der) perm_0700 w1
           = (None, w')"
    by auto
  from getECACertificate_world[OF f]
  have same: "files w1 = files w" "umask w1 = umask w" by simp_all
  show ?thesis
    using WriteFile_success[OF wr] same
    by (auto simp: perm_0700_no_group_other perm_0700_unmasked split: option.splits)
qed

theorem retrieveECACertsChain_mode_witness:
  "retrieveECACertsChain lib0 node0 ''validator'' w0 =
     (None,
      w0\<lparr>wire := [EvDial ''localhost:50051'', EvReadCACertificate, EvClose],
         files := [''eca.cert'' \<mapsto> \<lparr>content = [45, 48, 1], mode = 448\<rparr>]\<rparr>) \<and>
   files w0 (getECACertsChainPath (conf node0)) = None \<and>
   umask w0 AND perm_0700 = 0 \<and>
   map_option mode
     (files (w0\<lparr>wire := [EvDial ''localhost:50051'', EvReadCACertificate, EvClose],
         files := [''eca.cert'' \<mapsto> \<lparr>content = [45, 48, 1], mode = 448\<rparr>]\<rparr>)
        (getECACertsChainPath (conf node0))) = Some perm_0700"
proof -
  have nofile: "files w0 (getECACertsChainPath (conf node0)) = None"
    by (simp add: w0_def)
  have um: "umask w0 AND perm_0700 = 0"
    by (simp add: w0_def)
  from retrieveECACertsChain_mode[OF retrieve_validator] nofile um retrieve_validator
  show ?thesis by (auto simp: node0_def)
qed

subsection \<open>Fetching the certificate of the CA\<close>

text \<open>
  Claim C6, as stated: the fetch sends a read request whose identity is \<open>ca-root\<close>. The
  request prepared names \<open>eca-root\<close>, and what goes over the wire is the call of
  \<open>ReadCACertificate\<close> with the empty message: no identity at all.
\<close>

theorem getECACertificate_identity_counterexample:
  "ECertReadReq.Id getECACertificate_req = Some \<lparr>Identity.Id = ''eca-root''\<rparr> \<and>
   ECertReadReq.Id getECACertificate_req \<noteq> Some \<lparr>Identity.Id = ''ca-root''\<rparr> \<and>
   newEvents w0 (snd (getECACertificate lib0 node0 w0)) =
     [EvDial ''localhost:50051'', EvReadCACertificate, EvClose]"
  by (simp add: run_defs env0_defs)

text \<open>
  Claim C6, amended. \<open>getECACertificate\<close> prepares a read request for the identity
  \<open>eca-root\<close> and hands it to \<open>callECAReadCACertificate\<close>, which dials the CA and
  calls \<open>ReadCACertificate\<close> with the empty message. It fails exactly when the dial or
  this call fails, and returns that error as it is; otherwise it returns the bytes of the
  certificate received.
\<close>

theorem getECACertificate_request_and_errors:
  "ECertReadReq.Id getECACertificate_req = Some \<lparr>Identity.Id = ''eca-root''\<rparr> \<and>
   newEvents w (snd (getECACertificate l node w)) =
     (if grpc_Dial l (wire w) (getECAPAddr (conf node)) = None
      then [EvDial (getECAPAddr (conf node)), EvReadCACertificate, EvClose]
      else [EvDial (getECAPAddr (conf node))]) \<and>
   (\<forall>err. fst (getECACertificate l node w) = Inl err \<longleftrightarrow>
      grpc_Dial l (wire w) (getECAPAddr (conf node)) = Some err \<or>
      grpc_Dial l (wire w) (getECAPAddr (conf node)) = None \<and>
      ecaP_ReadCACertificate l (wire w @ [EvDial (getECAPAddr (conf node))]) = Inl err) \<and>
   (\<forall>pbCert.
      grpc_Dial l (wire w) (getECAPAddr (conf node)) = None \<and>
      ecaP_ReadCACertificate l (wire w @ [EvDial (getECAPAddr (conf node))]) = Inr pbCert \<longrightarrow>
      fst (getECACertificate l node w) = Inr (Cert.Cert pbCert))"
  by (auto simp: getECACertificate_def callECAReadCACertificate_def emit_def Let_def
                 newEvents_def getECACertificate_req_def
           split: option.splits sum.splits)

theorem getECACertificate_request_witness:
  "grpc_Dial lib0 (wire w0) (getECAPAddr (conf node0)) = None \<and>
   ecaP_ReadCACertificate lib0 (wire w0 @ [EvDial (getECAPAddr (conf node0))]) =
     Inr \<lparr>Cert.Cert = [48, 1]\<rparr> \<and>
   fst (getECACertificate lib0 node0 w0) = Inr [48, 1] \<and>
   grpc_Dial lib_dial_fails (wire w0) (getECAPAddr (conf node0)) =
     Some (Error ''grpc: connection refused'') \<and>
   fst (getECACertificate lib_dial_fails node0 w0) = Inl (Error ''grpc: connection refused'')"
proof -
  have d: "grpc_Dial lib0 (wire w0) (getECAPAddr (conf node0)) = None"
    by (simp add: lib0_def)
  have r: "ecaP_ReadCACertificate lib0 (wire w0 @ [EvDial (getECAPAddr (conf node0))]) =
     Inr \<lparr>Cert.Cert = [48, 1]\<rparr>"
    by (simp add: lib0_def)
  have df: "grpc_Dial lib_dial_fails (wire w0) (getECAPAddr (conf node0)) =
     Some (Error ''grpc: connection refused'')"
    by (simp add: lib_dial_fails_def lib0_def)
  from getECACertificate_request_and_errors[where l = lib0 and w = w0 and node = node0]
    getECACertificate_request_and_errors[where l = lib_dial_fails and w = w0 and node = node0]
    d r df
  show ?thesis by auto
qed

subsection \<open>One key for each enrollment\<close>

lemma getEnrollment_Ok:
  assumes "getEnrollmentCertificateFromECA l node id' pw w = (Ok (priv, cert, key), w')"
  shows "utils_NewECDSAKey l (randReads w) = Inr priv"
    and "randReads w' = Suc (Suc (randReads w))"
  using assms
  by (auto simp: getEnrollmentCertificateFromECA_def callECACreateCertificate_def emit_def
                 Let_def split_beta
           split: option.splits sum.splits prod.splits)

text \<open>Every attempt reads the random source, whatever its outcome.\<close>

lemma getEnrollment_randReads:
  assumes "getEnrollmentCertificateFromECA l node id' pw w = (res, w')"
  shows "randReads w < randReads w'"
  using assms
  by (auto simp: getEnrollmentCertificateFromECA_def callECACreateCertificate_def emit_def
                 Let_def split_beta
           split: option.splits sum.splits prod.splits)

lemma getEnrollment_keygen_fails:
  assumes "getEnrollmentCertificateFromECA l node id' pw w = (res, w')"
      and "utils_NewECDSAKey l (randReads w) = Inl err"
  shows "res = Err err"
  using assms by (auto simp: getEnrollmentCertificateFromECA_def Let_def)

lemma getEnrollment_succeeds:
  assumes run: "getEnrollmentCertificateFromECA l node id' pw w = (res, w')"
      and ok: "attemptSucceeds l node id' pw w priv r s cred c"
  shows "res = Ok (priv, Cert.Cert c, Creds.Key cred)"
proof -
  from ok have key: "utils_NewECDSAKey l (randReads w) = Inr priv"
    and sign: "signatureOf l w id' pw priv = Inr (r, s)"
    and dial: "grpc_Dial l (wire w) (getECAPAddr (conf node)) = None"
    and ca: "ecaP_CreateCertificate l (wire w @ [EvDial (getECAPAddr (conf node))])
               (signedReq l w id' pw priv r s) = Inr cred"
    and cert: "Creds.Cert cred = Some c"
    by (simp_all add: attemptSucceeds_def)
  from getEnrollment_success_run(3)[OF key sign dial] run ca cert
  show ?thesis by simp
qed

text \<open>
  Claim C9. Of two enrollment attempts made one after the other for the same identity and
  credential, whatever their outcomes, each reads the random source anew: the reads of the
  second lie after those of the first. Each attempt generates its key with its own first
  read: it returns the error of that key generation, the key it returns is the key of that
  read, and when the attempt goes through it returns that key with the certificate of the
  CA. Nothing of the first key reaches the second attempt; with a random source that
  yields no key at two different reads, the keys the two attempts generate are distinct.
\<close>

theorem sequential_enrollments_generate_distinct_keys:
  assumes first: "getEnrollmentCertificateFromECA l node id' pw w = (res1, w1)"
      and second: "getEnrollmentCertificateFromECA l node id' pw w1 = (res2, w2)"
  shows "randReads w < randReads w1 \<and> randReads w1 < randReads w2 \<and>
         (\<forall>err. utils_NewECDSAKey l (randReads w) = Inl err \<longrightarrow> res1 = Err err) \<and>
         (\<forall>err. utils_NewECDSAKey l (randReads w1) = Inl err \<longrightarrow> res2 = Err err) \<and>
         (\<forall>p c k. res1 = Ok (p, c, k) \<longrightarrow> utils_NewECDSAKey l (randReads w) = Inr p) \<and>
         (\<forall>p c k. res2 = Ok (p, c, k) \<longrightarrow> utils_NewECDSAKey l (randReads w1) = Inr p) \<and>
         (\<forall>priv r s cred c. attemptSucceeds l node id' pw w priv r s cred c \<longrightarrow>
            res1 = Ok (priv, Cert.Cert c, Creds.Key cred)) \<and>
         (\<forall>priv r s cred c. attemptSucceeds l node id' pw w1 priv r s cred c \<longrightarrow>
            res2 = Ok (priv, Cert.Cert c, Creds.Key cred)) \<and>
         (freshKeys l \<longrightarrow>
            (\<forall>priv1 priv2.
               utils_NewECDSAKey l (randReads w) = Inr priv1 \<and>
               utils_NewECDSAKey l (randReads w1) = Inr priv2 \<longrightarrow> priv1 \<noteq> priv2))"
proof -
  note lt1 = getEnrollment_randReads[OF first] and lt2 = getEnrollment_randReads[OF second]
  have e1: "res1 = Err err" if "utils_NewECDSAKey l (randReads w) = Inl err" for err
    using getEnrollment_keygen_fails[OF first that] .
  have e2: "res2 = Err err" if "utils_NewECDSAKey l (randReads w1) = Inl err" for err
    using getEnrollment_keygen_fails[OF second that] .
  have k1: "utils_NewECDSAKey l (randReads w) = Inr p" if "res1 = Ok (p, c, k)" for p c k
    using first that getEnrollment_Ok(1)[of l node id' pw w p c k w1] by simp
  have k2: "utils_NewECDSAKey l (randReads w1) = Inr p" if "res2 = Ok (p, c, k)" for p c k
    using second that getEnrollment_Ok(1)[of l node id' pw w1 p c k w2] by simp
  have s1: "res1 = Ok (priv, Cert.Cert c, Creds.Key cred)"
    if "attemptSucceeds l node id' pw w priv r s cred c" for priv r s cred c
    using getEnrollment_succeeds[OF first that] .
  have s2: "res2 = Ok (priv, Cert.Cert c, Creds.Key cred)"
    if "attemptSucceeds l node id' pw w1 priv r s cred c" for priv r s cred c
    using getEnrollment_succeeds[OF second that] .
  have d: "priv1 \<noteq> priv2"
    if fresh: "freshKeys l"
      and g1: "utils_NewECDSAKey l (randReads w) = Inr priv1"
      and g2: "utils_NewECDSAKey l (randReads w1) = Inr priv2"
    for priv1 priv2
  proof
    assume "priv1 = priv2"
    with g1 g2 fresh have "randReads w = randReads w1"
      unfolding freshKeys_def by blast
    with lt1 show False by simp
  qed
  from lt1 lt2 e1 e2 k1 k2 s1 s2 d show ?thesis by blast
qed

lemma lib_rejects_first_freshKeys: "freshKeys lib_rejects_first"
  by (auto simp: freshKeys_def lib_rejects_first_def lib0_def)

lemma rejected_then_enrolled:
  "fst (getEnrollmentCertificateFromECA lib_rejects_first node0 ''alice'' ''pw123'' w0) =
     Err (Error ''eca: enrollment rejected'')"
  "randReads (snd (getEnrollmentCertificateFromECA lib_rejects_first node0 ''alice'' ''pw123'' w0))
     = 2"
  "attemptSucceeds lib_rejects_first node0 ''alice'' ''pw123''
     (snd (getEnrollmentCertificateFromECA lib_rejects_first node0 ''alice'' ''pw123'' w0))
     key2 1 3 \<lparr>Creds.Cert = Some \<lparr>Cert.Cert = [48, 2]\<rparr>, Creds.Key = []\<rparr> \<lparr>Cert.Cert = [48, 2]\<rparr>"
  by (simp_all add: run_defs env0_defs lib_rejects_first_def key2_def attemptSucceeds_def
        signatureOf_def signedReq_def unsignedReq_def eval_nat_numeral)

theorem sequential_enrollments_witness:
  "freshKeys lib_rejects_first \<and>
   fst (getEnrollmentCertificateFromECA lib_rejects_first node0 ''alice'' ''pw123'' w0) =
     Err (Error ''eca: enrollment rejected'') \<and>
   utils_NewECDSAKey lib_rejects_first (randReads w0) = Inr key0 \<and>
   utils_NewECDSAKey lib_rejects_first
     (randReads (snd (getEnrollmentCertificateFromECA lib_rejects_first node0
                        ''alice'' ''pw123'' w0))) = Inr key2 \<and>
   attemptSucceeds lib_rejects_first node0 ''alice'' ''pw123''
     (snd (getEnrollmentCertificateFromECA lib_rejects_first node0 ''alice'' ''pw123'' w0))
     key2 1 3 \<lparr>Creds.Cert = Some \<lparr>Cert.Cert = [48, 2]\<rparr>, Creds.Key = []\<rparr> \<lparr>Cert.Cert = [48, 2]\<rparr> \<and>
   fst (getEnrollmentCertificateFromECA lib_rejects_first node0 ''alice'' ''pw123''
          (snd (getEnrollmentCertificateFromECA lib_rejects_first node0 ''alice'' ''pw123'' w0))) =
     Ok (key2, [48, 2], []) \<and>
   key0 \<noteq> key2"
proof -
  have first: "getEnrollmentCertificateFromECA lib_rejects_first node0 ''alice'' ''pw123'' w0 =
      (fst (getEnrollmentCertificateFromECA lib_rejects_first node0 ''alice'' ''pw123'' w0),
       snd (getEnrollmentCertificateFromECA lib_rejects_first node0 ''alice'' ''pw123'' w0))"
    by simp
  have second: "getEnrollmentCertificateFromECA lib_rejects_first node0 ''alice'' ''pw123''
        (snd (getEnrollmentCertificateFromECA lib_rejects_first node0 ''alice'' ''pw123'' w0)) =
      (fst (getEnrollmentCertificateFromECA lib_rejects_first node0 ''alice'' ''pw123''
              (snd (getEnrollmentCertificateFromECA lib_rejects_first node0 ''alice'' ''pw123'' w0))),
       snd (getEnrollmentCertificateFromECA lib_rejects_first node0 ''alice'' ''pw123''
              (snd (getEnrollmentCertificateFromECA lib_rejects_first node0 ''alice'' ''pw123'' w0))))"
    by simp
  have g1: "utils_NewECDSAKey lib_rejects_first (randReads w0) = Inr key0"
    by (simp add: lib_rejects_first_def lib0_def w0_def key0_def)
  have g2: "utils_NewECDSAKey lib_rejects_first
     (randReads (snd (getEnrollmentCertificateFromECA lib_rejects_first node0
                        ''alice'' ''pw123'' w0))) = Inr key2"
    unfolding rejected_then_enrolled(2)
    by (simp add: lib_rejects_first_def lib0_def key2_def)
  note inst = sequential_enrollments_generate_distinct_keys[OF first second]
  from inst rejected_then_enrolled(3)
  have ok: "fst (getEnrollmentCertificateFromECA lib_rejects_first node0 ''alice'' ''pw123''
          (snd (getEnrollmentCertificateFromECA lib_rejects_first node0 ''alice'' ''pw123'' w0))) =
     Ok (key2, [48, 2], [])"
    by auto
  from inst lib_rejects_first_freshKeys g1 g2 have ne: "key0 \<noteq> key2"
    by blast
  from lib_rejects_first_freshKeys rejected_then_enrolled(1,3) g1 g2 ok ne
  show ?thesis by blast
qed

subsection \<open>Which failures are returned\<close>

text \<open>
  Claim C4, as stated: every serialization failure is returned to the caller. With the
  three marshalling functions failing, the function still returns a key and a certificate:
  the request sent carries the empty public key and the empty signature components that
  came with the errors.
\<close>

theorem marshal_errors_swallowed_counterexample:
  "snd (x509_MarshalPKIXPublicKey lib_marshal_fails (PublicKey key0)) =
     Some (Error ''x509: unsupported public key'') \<and>
   snd (proto_Marshal lib_marshal_fails
          (newECertCreateReq (time_Now lib_marshal_fails (clockReads w0)) ''alice'' ''pw123'' [])) =
     Some (Error ''proto: marshal failed'') \<and>
   snd (big_MarshalText lib_marshal_fails 1) = Some (Error ''big: marshal failed'') \<and>
   fst (getEnrollmentCertificateFromECA lib_marshal_fails node0 ''alice'' ''pw123'' w0) =
     Ok (key0, [48, 2], [])"
  by (simp add: run_defs env0_defs lib_marshal_fails_def key0_def)

text \<open>
  Claim C4, amended. \<open>getEnrollmentCertificateFromECA\<close> returns the error of a failed
  key generation and the error of a failed signing. The errors of the marshalling calls
  (public key, request, signature components) are discarded: the bytes returned with them
  are used, and the run is the same as with these errors erased.
\<close>

theorem getEnrollment_errors_returned_and_discarded:
  "(\<forall>err. utils_NewECDSAKey l (randReads w) = Inl err \<longrightarrow>
      fst (getEnrollmentCertificateFromECA l node id' pw w) = Err err) \<and>
   (\<forall>priv err.
      utils_NewECDSAKey l (randReads w) = Inr priv \<and>
      ecdsa_Sign l (Suc (randReads w)) priv
        (utils_Hash l (fst (proto_Marshal l
           (newECertCreateReq (time_Now l (clockReads w)) id' pw
              (fst (x509_MarshalPKIXPublicKey l (PublicKey priv))))))) = Inl err \<longrightarrow>
      fst (getEnrollmentCertificateFromECA l node id' pw w) = Err err) \<and>
   getEnrollmentCertificateFromECA (withoutMarshalErrors l) node id' pw w =
     getEnrollmentCertificateFromECA l node id' pw w"
proof -
  have keygen: "fst (getEnrollmentCertificateFromECA l node id' pw w) = Err err"
    if "utils_NewECDSAKey l (randReads w) = Inl err" for err
    using that by (simp add: getEnrollmentCertificateFromECA_def Let_def)
  have signing: "fst (getEnrollmentCertificateFromECA l node id' pw w) = Err err"
    if "utils_NewECDSAKey l (randReads w) = Inr priv \<and>
        ecdsa_Sign l (Suc (randReads w)) priv
          (utils_Hash l (fst (proto_Marshal l
             (newECertCreateReq (time_Now l (clockReads w)) id' pw
                (fst (x509_MarshalPKIXPublicKey l (PublicKey priv))))))) = Inl err"
    for priv err
    using that by (simp add: getEnrollmentCertificateFromECA_def Let_def split_beta)
  have same: "getEnrollmentCertificateFromECA (withoutMarshalErrors l) node id' pw w =
     getEnrollmentCertificateFromECA l node id' pw w"
    by (auto simp: getEnrollmentCertificateFromECA_def callECACreateCertificate_def
                   withoutMarshalErrors_def Let_def split_beta
             split: sum.splits option.splits)
  from keygen signing same show ?thesis by blast
qed

theorem getEnrollment_errors_witness:
  "utils_NewECDSAKey lib_sign_fails (randReads w0) = Inr key0 \<and>
   ecdsa_Sign lib_sign_fails (Suc (randReads w0)) key0
     (utils_Hash lib_sign_fails (fst (proto_Marshal lib_sign_fails
        (newECertCreateReq (time_Now lib_sign_fails (clockReads w0)) ''alice'' ''pw123''
           (fst (x509_MarshalPKIXPublicKey lib_sign_fails (PublicKey key0))))))) =
     Inl (Error ''ecdsa: sign failed'') \<and>
   fst (getEnrollmentCertificateFromECA lib_sign_fails node0 ''alice'' ''pw123'' w0) =
     Err (Error ''ecdsa: sign failed'') \<and>
   utils_NewECDSAKey lib_keygen_fails (randReads w0) = Inl (Error ''ecdsa: no entropy'') \<and>
   fst (getEnrollmentCertificateFromECA lib_keygen_fails node0 ''alice'' ''pw123'' w0) =
     Err (Error ''ecdsa: no entropy'')"
proof -
  have k: "utils_NewECDSAKey lib_sign_fails (randReads w0) = Inr key0"
    by (simp add: lib_sign_fails_def lib0_def w0_def key0_def)
  have s: "ecdsa_Sign lib_sign_fails (Suc (randReads w0)) key0
     (utils_Hash lib_sign_fails (fst (proto_Marshal lib_sign_fails
        (newECertCreateReq (time_Now lib_sign_fails (clockReads w0)) ''alice'' ''pw123''
           (fst (x509_MarshalPKIXPublicKey lib_sign_fails (PublicKey key0))))))) =
     Inl (Error ''ecdsa: sign failed'')"
    by (simp add: lib_sign_fails_def lib0_def)
  have g: "utils_NewECDSAKey lib_keygen_fails (randReads w0) = Inl (Error ''ecdsa: no entropy'')"
    by (simp add: lib_keygen_fails_def lib0_def)
  from getEnrollment_errors_returned_and_discarded
         [where l = lib_sign_fails and w = w0 and node = node0 and id' = "''alice''"
            and pw = "''pw123''"]
       getEnrollment_errors_returned_and_discarded
         [where l = lib_keygen_fails and w = w0 and node = node0 and id' = "''alice''"
            and pw = "''pw123''"]
       k s g
  show ?thesis by blast
qed

end
